theory Spec2Isabelle
  imports Complex_Main
begin

section \<open>Data model (types/optical.ts)\<close>

text \<open>
  The overlay code of the Canvas component computes on JavaScript numbers. In the
  geometry they are modelled as real numbers: the formulas are the ones the source
  writes down, evaluated in exact arithmetic.
\<close>

record Position =
  coordX :: real
  coordY :: real

text \<open>
  A component as the registry holds it. At run time \<open>type\<close> is a string (the sidebar
  also passes \<open>polarizer\<close>), \<open>displayName\<close> is optional and \<open>properties\<close> is an
  object with numeric fields, kept here as an association list.
\<close>

record Component =
  comp_id :: string
  comp_type :: string
  position :: Position
  rotation :: real
  displayName :: "string option"
  properties :: "(string \<times> real) list"

record Ray =
  ray_id :: string
  ray_points :: "Position list"
  ray_color :: string
  ray_intensity :: real

record Poly =
  poly_id :: string
  poly_points :: "Position list"
  poly_color :: string
  poly_opacity :: real
  poly_width :: real

section \<open>Helpers (utils/helpers.ts)\<close>

definition distance :: "Position \<Rightarrow> Position \<Rightarrow> real" where
  "distance p1 p2 = sqrt ((coordX p2 - coordX p1)\<^sup>2 + (coordY p2 - coordY p1)\<^sup>2)"

definition getDefaultProperties :: "string \<Rightarrow> (string \<times> real) list" where
  "getDefaultProperties t =
     (if t = ''source'' then [(''angle'', 0), (''wavelength'', 632.8), (''intensity'', 100)]
      else if t = ''mirror'' then [(''reflectivity'', 95), (''width'', 50)]
      else if t = ''lens'' then [(''focalLength'', 100), (''diameter'', 50), (''refractiveIndex'', 1.5)]
      else if t = ''detector'' then [(''sensitivity'', 90), (''width'', 50)]
      else [])"

section \<open>Canvas: dispersion geometry\<close>

definition spectralColors :: "string list" where
  "spectralColors = [''#8B00FF'', ''#0000FF'', ''#00FF00'', ''#FFFF00'', ''#FFA500'', ''#FF0000'']"

text \<open>\<open>String.prototype.toLowerCase\<close> on the ASCII letters; other bytes are left alone.\<close>

definition lowerChar :: "char \<Rightarrow> char" where
  "lowerChar c =
     (case map_of (zip ''ABCDEFGHIJKLMNOPQRSTUVWXYZ'' ''abcdefghijklmnopqrstuvwxyz'') c of
        None \<Rightarrow> c
      | Some d \<Rightarrow> d)"

definition toLowerCase :: "string \<Rightarrow> string" where
  "toLowerCase s = map lowerChar s"

text \<open>\<open>components.filter((c) => (c.displayName || '').toLowerCase() === 'prism')\<close>\<close>

definition prisms :: "Component list \<Rightarrow> Component list" where
  "prisms components =
     filter (\<lambda>c. toLowerCase (case displayName c of None \<Rightarrow> [] | Some s \<Rightarrow> s) = ''prism'') components"

definition distancePointToSegment :: "real \<Rightarrow> real \<Rightarrow> real \<Rightarrow> real \<Rightarrow> real \<Rightarrow> real \<Rightarrow> real" where
  "distancePointToSegment px py x1 y1 x2 y2 =
     (let A = px - x1;
          B = py - y1;
          C = x2 - x1;
          D = y2 - y1;
          dot = A * C + B * D;
          len_sq = C * C + D * D;
          param = (if len_sq \<noteq> 0 then dot / len_sq else - 1);
          xx = (if param < 0 then x1 else if param > 1 then x2 else x1 + param * C);
          yy = (if param < 0 then y1 else if param > 1 then y2 else y1 + param * D);
          dx = px - xx;
          dy = py - yy
      in sqrt (dx * dx + dy * dy))"

definition threshold :: real where
  "threshold = 24"

definition deflectBase :: real where
  "deflectBase = 0.18"

definition fanLength :: real where
  "fanLength = 240"

text \<open>Decimal rendering of a loop index inside a template literal.\<close>

definition digitChar :: "nat \<Rightarrow> char" where
  "digitChar d = ''0123456789'' ! d"

fun showNat :: "nat \<Rightarrow> string" where
  "showNat n = (if n < 10 then [digitChar n] else showNat (n div 10) @ [digitChar (n mod 10)])"

declare showNat.simps [simp del]

text \<open>\<open>Math.hypot(dirX, dirY) || 1\<close>: a zero length is falsy and replaced by 1.\<close>

definition hypot :: "real \<Rightarrow> real \<Rightarrow> real" where
  "hypot a b = sqrt (a * a + b * b)"

definition segLen :: "Position \<Rightarrow> Position \<Rightarrow> real" where
  "segLen p1 p2 =
     (let dirX = coordX p2 - coordX p1;
          dirY = coordY p2 - coordY p1
      in if hypot dirX dirY \<noteq> 0 then hypot dirX dirY else 1)"

definition unitDir :: "Position \<Rightarrow> Position \<Rightarrow> real \<times> real" where
  "unitDir p1 p2 =
     (let dirX = coordX p2 - coordX p1;
          dirY = coordY p2 - coordY p1
      in (dirX / segLen p1 p2, dirY / segLen p1 p2))"

text \<open>The angle of sub-ray \<open>k\<close> out of \<open>n\<close>: lines 170 and 171 of the Canvas source.\<close>

definition deflectionAngle :: "nat \<Rightarrow> nat \<Rightarrow> real" where
  "deflectionAngle n k =
     (let t = (real n - 1 - real k) / (real n - 1)
      in (t * 0.5 + 0.5) * deflectBase)"

text \<open>The body of the loop over \<open>k\<close>: the polyline pushed for one spectral index.\<close>

definition subRay :: "string \<Rightarrow> nat \<Rightarrow> real \<times> real \<Rightarrow> Component \<Rightarrow> nat \<Rightarrow> Poly" where
  "subRay rid i u prism k =
     (let n = length spectralColors;
          angle = deflectionAngle n k;
          cosA = cos angle;
          sinA = sin angle;
          rx = fst u * cosA - snd u * sinA;
          ry = fst u * sinA + snd u * cosA;
          start = \<lparr>coordX = coordX (position prism), coordY = coordY (position prism)\<rparr>;
          endPt = \<lparr>coordX = coordX start + rx * fanLength, coordY = coordY start + ry * fanLength\<rparr>
      in \<lparr>poly_id = ''disp-'' @ rid @ ''-'' @ showNat i @ ''-'' @ showNat k,
          poly_points = [start, endPt],
          poly_color = spectralColors ! k,
          poly_opacity = 0.85,
          poly_width = 2\<rparr>)"

text \<open>The body of the loop over the prisms: what one (segment, prism) pair pushes.\<close>

definition prismPolys :: "string \<Rightarrow> nat \<Rightarrow> Position \<Rightarrow> Position \<Rightarrow> Component \<Rightarrow> Poly list" where
  "prismPolys rid i p1 p2 prism =
     (let d = distancePointToSegment (coordX (position prism)) (coordY (position prism))
                (coordX p1) (coordY p1) (coordX p2) (coordY p2)
      in if d \<le> threshold
         then map (subRay rid i (unitDir p1 p2) prism) [0..<length spectralColors]
         else [])"

definition segmentPolys :: "string \<Rightarrow> nat \<Rightarrow> Position \<Rightarrow> Position \<Rightarrow> Component list \<Rightarrow> Poly list" where
  "segmentPolys rid i p1 p2 ps = concat (map (prismPolys rid i p1 p2) ps)"

definition rayPolys :: "Ray \<Rightarrow> Component list \<Rightarrow> Poly list" where
  "rayPolys ray ps =
     (let pts = ray_points ray
      in concat (map (\<lambda>i. segmentPolys (ray_id ray) i (pts ! i) (pts ! (i + 1)) ps)
                     [0..<length pts - 1]))"

definition dispersionPolys :: "Ray list \<Rightarrow> Component list \<Rightarrow> Poly list" where
  "dispersionPolys rays ps =
     (if rays = [] \<or> ps = [] then []
      else concat (map (\<lambda>ray. rayPolys ray ps) rays))"

section \<open>Canvas: the viewport transform of the overlay\<close>

text \<open>
  \<open>useStore((s) => s.transform)\<close> yields the array \<open>[translateX, translateY, zoom]\<close> or
  nothing; \<open>transform?.[i] ?? d\<close> reads entry \<open>i\<close> and falls back to \<open>d\<close> when the array or
  the entry is missing.
\<close>

definition entryOr :: "real list option \<Rightarrow> nat \<Rightarrow> real \<Rightarrow> real" where
  "entryOr transform i d =
     (case transform of
        None \<Rightarrow> d
      | Some a \<Rightarrow> if i < length a then a ! i else d)"

definition tx :: "real list option \<Rightarrow> real" where
  "tx transform = entryOr transform 0 0"

definition ty :: "real list option \<Rightarrow> real" where
  "ty transform = entryOr transform 1 0"

definition zoom :: "real list option \<Rightarrow> real" where
  "zoom transform = entryOr transform 2 1"

text \<open>
  The overlay group carries the attribute \<open>translate(tx, ty) scale(zoom)\<close>. In SVG a
  transform list maps a point of the group by its last entry first.
\<close>

datatype svgTransform = Translate real real | Scale real

fun applyTransform :: "svgTransform \<Rightarrow> Position \<Rightarrow> Position" where
  "applyTransform (Translate a b) p = \<lparr>coordX = coordX p + a, coordY = coordY p + b\<rparr>"
| "applyTransform (Scale s) p = \<lparr>coordX = coordX p * s, coordY = coordY p * s\<rparr>"

definition groupTransform :: "real list option \<Rightarrow> svgTransform list" where
  "groupTransform transform = [Translate (tx transform) (ty transform), Scale (zoom transform)]"

definition toScreen :: "real list option \<Rightarrow> Position \<Rightarrow> Position" where
  "toScreen transform p = foldr applyTransform (groupTransform transform) p"

section \<open>The specification's reading of the projection\<close>



section \<open>The scenario of the specification\<close>

text \<open>
  A source at \<open>(100,100)\<close>, a lens labelled Prism at \<open>(300,100)\<close> and a ray traced along
  \<open>(100,100) \<rightarrow> (500,100)\<close>; a second prism 1000 units off the ray; and a ray whose two
  points coincide 10 units from the first prism.
\<close>

definition scenarioSource :: Component where
  "scenarioSource =
     \<lparr>comp_id = ''source-1'', comp_type = ''source'',
      position = \<lparr>coordX = 100, coordY = 100\<rparr>, rotation = 0,
      displayName = None, properties = getDefaultProperties ''source''\<rparr>"

definition scenarioPrism :: Component where
  "scenarioPrism =
     \<lparr>comp_id = ''lens-1'', comp_type = ''lens'',
      position = \<lparr>coordX = 300, coordY = 100\<rparr>, rotation = 0,
      displayName = Some ''Prism'', properties = getDefaultProperties ''lens''\<rparr>"

definition farPrism :: Component where
  "farPrism =
     \<lparr>comp_id = ''lens-2'', comp_type = ''lens'',
      position = \<lparr>coordX = 300, coordY = 1100\<rparr>, rotation = 0,
      displayName = Some ''PRISM'', properties = getDefaultProperties ''lens''\<rparr>"

definition scenarioRay :: Ray where
  "scenarioRay =
     \<lparr>ray_id = ''ray-0'',
      ray_points = [\<lparr>coordX = 100, coordY = 100\<rparr>, \<lparr>coordX = 500, coordY = 100\<rparr>],
      ray_color = ''#ff0000'', ray_intensity = 100\<rparr>"

definition degenerateRay :: Ray where
  "degenerateRay =
     \<lparr>ray_id = ''ray-1'',
      ray_points = [\<lparr>coordX = 310, coordY = 100\<rparr>, \<lparr>coordX = 310, coordY = 100\<rparr>],
      ray_color = ''#ff0000'', ray_intensity = 100\<rparr>"

section \<open>Component registry (App.tsx, PropertiesPanel.tsx)\<close>

text \<open>
  \<open>Partial<OpticalComponent>\<close>: every field may be absent (\<open>None\<close>) or carry a value.
\<close>

record ComponentUpdate =
  u_id :: "string option"
  u_type :: "string option"
  u_position :: "Position option"
  u_rotation :: "real option"
  u_displayName :: "string option"
  u_properties :: "(string \<times> real) list option"

definition noUpdate :: ComponentUpdate where
  "noUpdate =
     \<lparr>u_id = None, u_type = None, u_position = None, u_rotation = None,
      u_displayName = None, u_properties = None\<rparr>"

text \<open>The object spread \<open>{ ...comp, ...updates }\<close>: a field of the update wins where present.\<close>

definition spread :: "Component \<Rightarrow> ComponentUpdate \<Rightarrow> Component" where
  "spread cmp updates =
     \<lparr>comp_id = (case u_id updates of None \<Rightarrow> comp_id cmp | Some v \<Rightarrow> v),
      comp_type = (case u_type updates of None \<Rightarrow> comp_type cmp | Some v \<Rightarrow> v),
      position = (case u_position updates of None \<Rightarrow> position cmp | Some v \<Rightarrow> v),
      rotation = (case u_rotation updates of None \<Rightarrow> rotation cmp | Some v \<Rightarrow> v),
      displayName = (case u_displayName updates of None \<Rightarrow> displayName cmp | Some v \<Rightarrow> Some v),
      properties = (case u_properties updates of None \<Rightarrow> properties cmp | Some v \<Rightarrow> v)\<rparr>"

definition handleUpdateComponent :: "string \<Rightarrow> ComponentUpdate \<Rightarrow> Component list \<Rightarrow> Component list" where
  "handleUpdateComponent ident updates prev =
     map (\<lambda>cmp. if comp_id cmp = ident then spread cmp updates else cmp) prev"






definition handleRotationChange :: "Component option \<Rightarrow> real \<Rightarrow> Component list \<Rightarrow> Component list" where
  "handleRotationChange selectedComponent r prev =
     (case selectedComponent of
        None \<Rightarrow> prev
      | Some sel \<Rightarrow> handleUpdateComponent (comp_id sel) (noUpdate\<lparr>u_rotation := Some r\<rparr>) prev)"





text \<open>
  The normalization the specification asks for, \<open>((r % 360) + 360) % 360\<close>, with the
  remainder of JavaScript (the quotient is truncated towards zero).
\<close>

definition jsRem :: "real \<Rightarrow> real \<Rightarrow> real" where
  "jsRem a b = a - b * of_int (if 0 \<le> a / b then \<lfloor>a / b\<rfloor> else \<lceil>a / b\<rceil>)"

definition normalizeRotation :: "real \<Rightarrow> real" where
  "normalizeRotation r = jsRem (jsRem r 360 + 360) 360"


section \<open>JavaScript values and JSON\<close>

text \<open>
  The application state holds whatever values the handlers put there: an import stores
  the parsed array unchecked. Values are modelled untyped. A number is a real or one of
  the three non-finite numbers; an object is its list of own properties in order.
\<close>

datatype jsvalue =
    JUndefined
  | JNull
  | JBool bool
  | JNum real
  | JNaN
  | JInfinity
  | JNegInfinity
  | JStr string
  | JArr "jsvalue list"
  | JObj "(string \<times> jsvalue) list"

fun truthy :: "jsvalue \<Rightarrow> bool" where
  "truthy JUndefined = False"
| "truthy JNull = False"
| "truthy (JBool b) = b"
| "truthy (JNum r) = (r \<noteq> 0)"
| "truthy JNaN = False"
| "truthy (JStr s) = (s \<noteq> [])"
| "truthy v = True"

fun isArray :: "jsvalue \<Rightarrow> bool" where
  "isArray (JArr vs) = True"
| "isArray v = False"

fun elements :: "jsvalue \<Rightarrow> jsvalue list" where
  "elements (JArr vs) = vs"
| "elements v = []"

text \<open>
  Reading a property. On \<open>undefined\<close> and \<open>null\<close> the read throws a TypeError (\<open>None\<close>).
  On an object it yields the own property or \<open>undefined\<close>. The names read by the import
  (\<open>components\<close>, \<open>simulationSettings\<close>, \<open>settings\<close>) are no properties of numbers,
  strings, booleans or arrays, where the read yields \<open>undefined\<close>.
\<close>

fun readProp :: "jsvalue \<Rightarrow> string \<Rightarrow> jsvalue" where
  "readProp (JObj kvs) k = (case map_of kvs k of None \<Rightarrow> JUndefined | Some v \<Rightarrow> v)"
| "readProp v k = JUndefined"

definition getProp :: "jsvalue \<Rightarrow> string \<Rightarrow> jsvalue option" where
  "getProp v k = (if v = JUndefined \<or> v = JNull then None else Some (readProp v k))"

text \<open>
  \<open>JSON.parse(JSON.stringify(v))\<close> for a value \<open>v\<close>: what is left of \<open>v\<close> after a trip
  through JSON text. \<open>undefined\<close> has no JSON text (\<open>None\<close>); a property whose value has
  none is omitted, an array entry without one becomes \<open>null\<close>, and so does a number that is
  not finite.
\<close>

fun jsonValue :: "jsvalue \<Rightarrow> jsvalue option" where
  "jsonValue JUndefined = None"
| "jsonValue JNull = Some JNull"
| "jsonValue (JBool b) = Some (JBool b)"
| "jsonValue (JNum r) = Some (JNum r)"
| "jsonValue JNaN = Some JNull"
| "jsonValue JInfinity = Some JNull"
| "jsonValue JNegInfinity = Some JNull"
| "jsonValue (JStr s) = Some (JStr s)"
| "jsonValue (JArr vs) =
     Some (JArr (map (\<lambda>v. case jsonValue v of None \<Rightarrow> JNull | Some w \<Rightarrow> w) vs))"
| "jsonValue (JObj kvs) =
     Some (JObj (concat (map (\<lambda>kv. case jsonValue (snd kv) of None \<Rightarrow> [] | Some w \<Rightarrow> [(fst kv, w)]) kvs)))"

text \<open>
  The text of a file, up to what \<open>JSON.parse\<close> makes of it: a SyntaxError, or the value
  it parses to.
\<close>

datatype fileText = NotJSON | JSONText jsvalue

section \<open>Application state and its handlers (App.tsx)\<close>

record AppState =
  components :: "jsvalue list"
  selectedId :: "string option"
  simulationSettings :: jsvalue
  simulationResult :: "jsvalue option"
  isSimulating :: bool
  alerts :: "string list"

text \<open>\<open>alerts\<close> is the list of messages shown with \<open>alert\<close>, oldest first.\<close>

definition alert :: "string \<Rightarrow> AppState \<Rightarrow> AppState" where
  "alert msg st = st\<lparr>alerts := alerts st @ [msg]\<rparr>"

text \<open>\<open>downloadJSON\<close> writes \<open>JSON.stringify(data, null, 2)\<close> to the file.\<close>

definition downloadJSON :: "jsvalue \<Rightarrow> fileText" where
  "downloadJSON data = (case jsonValue data of None \<Rightarrow> NotJSON | Some v \<Rightarrow> JSONText v)"

definition handleExportSetup :: "AppState \<Rightarrow> fileText" where
  "handleExportSetup st =
     downloadJSON (JObj [(''components'', JArr (components st)),
                         (''simulationSettings'', simulationSettings st)])"

text \<open>
  The \<open>onload\<close> callback of \<open>handleImportSetup\<close>. A SyntaxError of \<open>JSON.parse\<close> and the
  TypeError of reading \<open>setup.components\<close> on \<open>null\<close> both end in the \<open>catch\<close> block, before
  any state is set.
\<close>

definition handleImportSetup :: "fileText \<Rightarrow> AppState \<Rightarrow> AppState" where
  "handleImportSetup file st =
     (case file of
        NotJSON \<Rightarrow> alert ''Failed to import setup. Invalid file format.'' st
      | JSONText setupVal \<Rightarrow>
          (case getProp setupVal ''components'' of
             None \<Rightarrow> alert ''Failed to import setup. Invalid file format.'' st
           | Some comps \<Rightarrow>
               (let st1 = (if truthy comps \<and> isArray comps
                           then st\<lparr>components := elements comps\<rparr> else st);
                    importedSettings =
                      (if truthy (readProp setupVal ''simulationSettings'')
                       then readProp setupVal ''simulationSettings''
                       else readProp setupVal ''settings'');
                    st2 = (if truthy importedSettings
                           then st1\<lparr>simulationSettings := importedSettings\<rparr> else st1)
                in st2\<lparr>simulationResult := None, selectedId := None\<rparr>)))"

subsection \<open>Simulation gateway\<close>

text \<open>
  \<open>handleRunSimulation\<close> is asynchronous: it runs up to the \<open>await\<close>, and resumes when the
  request settles. The calls in flight are kept in \<open>pending\<close>, named by a number; an event
  is the start of a call, or the response or failure that settles one.
\<close>

record Runtime =
  app :: AppState
  pending :: "nat list"

datatype event = Run nat | Resolved nat jsvalue | Rejected nat

definition runStart :: "nat \<Rightarrow> Runtime \<Rightarrow> Runtime" where
  "runStart call rt =
     (if components (app rt) = []
      then rt\<lparr>app := alert ''Please add some components first!'' (app rt)\<rparr>
      else rt\<lparr>app := (app rt)\<lparr>isSimulating := True\<rparr>, pending := pending rt @ [call]\<rparr>)"

definition runResolved :: "nat \<Rightarrow> jsvalue \<Rightarrow> Runtime \<Rightarrow> Runtime" where
  "runResolved call result rt =
     (if call \<in> set (pending rt)
      then rt\<lparr>app := (app rt)\<lparr>simulationResult := Some result, isSimulating := False\<rparr>,
              pending := removeAll call (pending rt)\<rparr>
      else rt)"

definition runRejected :: "nat \<Rightarrow> Runtime \<Rightarrow> Runtime" where
  "runRejected call rt =
     (if call \<in> set (pending rt)
      then rt\<lparr>app := (alert ''Simulation failed. Make sure the backend server is running.'' (app rt))
                      \<lparr>isSimulating := False\<rparr>,
              pending := removeAll call (pending rt)\<rparr>
      else rt)"

fun step :: "Runtime \<Rightarrow> event \<Rightarrow> Runtime" where
  "step rt (Run call) = runStart call rt"
| "step rt (Resolved call result) = runResolved call result rt"
| "step rt (Rejected call) = runRejected call rt"

definition runEvents :: "Runtime \<Rightarrow> event list \<Rightarrow> Runtime" where
  "runEvents rt es = foldl step rt es"

subsection \<open>Typed setups as JavaScript values\<close>

record SimulationSettings =
  freqStart :: real
  freqStop :: real
  freqPoints :: real

definition encodePosition :: "Position \<Rightarrow> jsvalue" where
  "encodePosition p = JObj [(''x'', JNum (coordX p)), (''y'', JNum (coordY p))]"

definition encodeProperties :: "(string \<times> real) list \<Rightarrow> jsvalue" where
  "encodeProperties ps = JObj (map (\<lambda>kv. (fst kv, JNum (snd kv))) ps)"

text \<open>The object literal of \<open>handleAddComponent\<close>; a missing name is \<open>displayName: undefined\<close>.\<close>

definition encodeComponent :: "Component \<Rightarrow> jsvalue" where
  "encodeComponent c =
     JObj [(''id'', JStr (comp_id c)),
           (''type'', JStr (comp_type c)),
           (''position'', encodePosition (position c)),
           (''rotation'', JNum (rotation c)),
           (''properties'', encodeProperties (properties c)),
           (''displayName'', case displayName c of None \<Rightarrow> JUndefined | Some n \<Rightarrow> JStr n)]"

definition encodeSettings :: "SimulationSettings \<Rightarrow> jsvalue" where
  "encodeSettings s =
     JObj [(''freqStart'', JNum (freqStart s)),
           (''freqStop'', JNum (freqStop s)),
           (''freqPoints'', JNum (freqPoints s))]"

definition initialSettings :: SimulationSettings where
  "initialSettings = \<lparr>freqStart = 400, freqStop = 700, freqPoints = 10\<rparr>"

definition initialState :: AppState where
  "initialState =
     \<lparr>components = [], selectedId = None, simulationSettings = encodeSettings initialSettings,
      simulationResult = None, isSimulating = False, alerts = []\<rparr>"

text \<open>
  A session with one source placed and selected and a simulation result on screen; and
  a lens whose x position was cleared in the properties panel (\<open>parseFloat('')\<close> is NaN).
\<close>

definition workingState :: AppState where
  "workingState =
     \<lparr>components = [encodeComponent scenarioSource], selectedId = Some ''source-1'',
      simulationSettings = encodeSettings initialSettings,
      simulationResult = Some (JObj [(''rays'', JArr []), (''pathLengths'', JArr []), (''frequencySweep'', JArr [])]),
      isSimulating = False, alerts = []\<rparr>"

definition nanComponent :: jsvalue where
  "nanComponent =
     JObj [(''id'', JStr ''lens-1''),
           (''type'', JStr ''lens''),
           (''position'', JObj [(''x'', JNaN), (''y'', JNum 200)]),
           (''rotation'', JNum 0),
           (''properties'', encodeProperties (getDefaultProperties ''lens'')),
           (''displayName'', JStr ''Lens'')]"

text \<open>What a typed component is after the trip through JSON: an undefined name is gone.\<close>

definition jsonComponent :: "Component \<Rightarrow> jsvalue" where
  "jsonComponent c =
     JObj ([(''id'', JStr (comp_id c)),
            (''type'', JStr (comp_type c)),
            (''position'', encodePosition (position c)),
            (''rotation'', JNum (rotation c)),
            (''properties'', encodeProperties (properties c))]
           @ (case displayName c of None \<Rightarrow> [] | Some n \<Rightarrow> [(''displayName'', JStr n)]))"


section \<open>Point-to-segment distance\<close>



lemma d_param:
  "distancePointToSegment px py x1 y1 x2 y2 =
     (let C = x2 - x1; D = y2 - y1;
          param = (if C * C + D * D \<noteq> 0 then ((px - x1) * C + (py - y1) * D) / (C * C + D * D) else - 1);
          xx = (if param < 0 then x1 else if param > 1 then x2 else x1 + param * C);
          yy = (if param < 0 then y1 else if param > 1 then y2 else y1 + param * D)
      in sqrt ((px - xx) * (px - xx) + (py - yy) * (py - yy)))"
  by (simp add: distancePointToSegment_def Let_def)





lemma d_on_segment:
  assumes s: "0 \<le> s" "s \<le> 1"
    and px: "px = x1 + s * (x2 - x1)" and py: "py = y1 + s * (y2 - y1)"
  shows "distancePointToSegment px py x1 y1 x2 y2 = 0"
proof (cases "(x2 - x1) * (x2 - x1) + (y2 - y1) * (y2 - y1) = 0")
  case True
  then have "x2 - x1 = 0" "y2 - y1 = 0"
    by (simp_all add: add_nonneg_eq_0_iff)
  then show ?thesis
    using px py by (simp add: d_param)
next
  case False
  have "(px - x1) * (x2 - x1) + (py - y1) * (y2 - y1) =
        s * ((x2 - x1) * (x2 - x1) + (y2 - y1) * (y2 - y1))"
    unfolding px py by (simp add: algebra_simps)
  then have param: "((px - x1) * (x2 - x1) + (py - y1) * (y2 - y1)) /
        ((x2 - x1) * (x2 - x1) + (y2 - y1) * (y2 - y1)) = s"
    using False by simp
  have "distancePointToSegment px py x1 y1 x2 y2 =
        sqrt ((px - (x1 + s * (x2 - x1))) * (px - (x1 + s * (x2 - x1)))
            + (py - (y1 + s * (y2 - y1))) * (py - (y1 + s * (y2 - y1))))"
    unfolding d_param Let_def param using s False by simp
  also have "\<dots> = 0" unfolding px py by simp
  finally show ?thesis .
qed





section \<open>Dispersion fans\<close>

lemma length_spectralColors: "length spectralColors = 6"
  by (simp add: spectralColors_def)

lemma upt_6: "[0..<6] = [0, 1, 2, 3, 4, 5::nat]"
  by (simp add: upt_rec)

lemma prismPolys_near:
  assumes "distancePointToSegment (coordX (position c)) (coordY (position c))
             (coordX p1) (coordY p1) (coordX p2) (coordY p2) \<le> threshold"
  shows "prismPolys rid i p1 p2 c = map (subRay rid i (unitDir p1 p2) c) [0..<6]"
  using assms by (simp add: prismPolys_def length_spectralColors)

lemma prismPolys_far:
  assumes "\<not> distancePointToSegment (coordX (position c)) (coordY (position c))
             (coordX p1) (coordY p1) (coordX p2) (coordY p2) \<le> threshold"
  shows "prismPolys rid i p1 p2 c = []"
  using assms by (simp add: prismPolys_def)

lemma in_rayPolys_iff:
  "poly \<in> set (rayPolys ray ps) \<longleftrightarrow>
     (\<exists>i. i + 1 < length (ray_points ray) \<and>
        (\<exists>c \<in> set ps. poly \<in> set (prismPolys (ray_id ray) i (ray_points ray ! i) (ray_points ray ! (i + 1)) c)))"
  unfolding rayPolys_def segmentPolys_def Let_def set_concat set_map set_upt
  by (auto simp: less_diff_conv)

lemma in_dispersionPolys_iff:
  "poly \<in> set (dispersionPolys rays ps) \<longleftrightarrow>
     (\<exists>ray \<in> set rays. \<exists>i. i + 1 < length (ray_points ray) \<and>
        (\<exists>c \<in> set ps. poly \<in> set (prismPolys (ray_id ray) i (ray_points ray ! i) (ray_points ray ! (i + 1)) c)))"
proof (cases "rays = [] \<or> ps = []")
  case True
  then show ?thesis by (auto simp: dispersionPolys_def)
next
  case False
  then show ?thesis by (simp add: dispersionPolys_def in_rayPolys_iff)
qed







lemma subRay_points:
  "poly_points (subRay rid i u c k) =
     [position c,
      \<lparr>coordX = coordX (position c)
                 + (fst u * cos (deflectionAngle 6 k) - snd u * sin (deflectionAngle 6 k)) * 240,
       coordY = coordY (position c)
                 + (fst u * sin (deflectionAngle 6 k) + snd u * cos (deflectionAngle 6 k)) * 240\<rparr>]"
  by (simp add: subRay_def Let_def length_spectralColors fanLength_def)






lemma fan_nth:
  assumes "k < 6"
  shows "map (subRay rid i u c) [0..<6] ! k = subRay rid i u c k"
  using assms by simp



lemma unitDir_degenerate: "segLen p p = 1" "unitDir p p = (0, 0)"
  by (simp_all add: segLen_def unitDir_def hypot_def)

lemma subRay_degenerate:
  "poly_points (subRay rid i (0, 0) c k) = [position c, position c]"
  by (simp add: subRay_points)

lemma distance_self: "distance p p = 0"
  by (simp add: distance_def)

lemma prismPolys_emitted:
  assumes "ray \<in> set rays" and "i + 1 < length (ray_points ray)" and "c \<in> set ps"
  shows "set (prismPolys (ray_id ray) i (ray_points ray ! i) (ray_points ray ! (i + 1)) c)
           \<subseteq> set (dispersionPolys rays ps)"
proof
  fix poly
  assume "poly \<in> set (prismPolys (ray_id ray) i (ray_points ray ! i) (ray_points ray ! (i + 1)) c)"
  with assms show "poly \<in> set (dispersionPolys rays ps)"
    unfolding in_dispersionPolys_iff by blast
qed



lemma prisms_far: "prisms [scenarioSource, farPrism] = [farPrism]"
  by (simp add: prisms_def scenarioSource_def farPrism_def toLowerCase_def lowerChar_def)

lemma scenario_near:
  "distancePointToSegment (coordX (position scenarioPrism)) (coordY (position scenarioPrism))
     (coordX (ray_points scenarioRay ! 0)) (coordY (ray_points scenarioRay ! 0))
     (coordX (ray_points scenarioRay ! 1)) (coordY (ray_points scenarioRay ! 1)) \<le> threshold"
proof -
  have "distancePointToSegment 300 100 100 100 500 100 = 0"
    by (rule d_on_segment[of "1 / 2"]) simp_all
  then show ?thesis by (simp add: scenarioPrism_def scenarioRay_def threshold_def)
qed

lemma scenario_far:
  "threshold < distancePointToSegment (coordX (position farPrism)) (coordY (position farPrism))
     (coordX (ray_points scenarioRay ! 0)) (coordY (ray_points scenarioRay ! 0))
     (coordX (ray_points scenarioRay ! 1)) (coordY (ray_points scenarioRay ! 1))"
proof -
  have "distancePointToSegment 300 1100 100 100 500 100 = sqrt (1000 * 1000)"
    by (simp add: d_param)
  also have "\<dots> = 1000" by (simp only: real_sqrt_abs2)
  finally show ?thesis by (simp add: farPrism_def scenarioRay_def threshold_def)
qed

lemma degenerate_near:
  "distancePointToSegment (coordX (position scenarioPrism)) (coordY (position scenarioPrism))
     (coordX (ray_points degenerateRay ! 0)) (coordY (ray_points degenerateRay ! 0))
     (coordX (ray_points degenerateRay ! 0)) (coordY (ray_points degenerateRay ! 0)) \<le> threshold"
proof -
  have "distancePointToSegment 300 100 310 100 310 100 = sqrt (10 * 10)"
    by (simp add: d_param)
  also have "\<dots> = 10" by (simp only: real_sqrt_abs2)
  finally show ?thesis by (simp add: scenarioPrism_def degenerateRay_def threshold_def)
qed


text \<open>
  Claim C10. For a degenerate segment (\<open>p1 = p2 = p\<close>) within the threshold of a dispersive
  component \<open>c\<close>, the fallback \<open>segLen || 1\<close> gives the direction \<open>(0,0)\<close>; the pair still
  pushes six polylines, each with both points equal to \<open>c.position\<close>, hence of length 0,
  and they are part of the output of \<open>dispersionPolys\<close>.
\<close>

theorem degenerate_segment_fan:
  assumes near: "distancePointToSegment (coordX (position c)) (coordY (position c))
                   (coordX p) (coordY p) (coordX p) (coordY p) \<le> threshold"
  shows "segLen p p = 1
    \<and> unitDir p p = (0, 0)
    \<and> length (prismPolys rid i p p c) = 6
    \<and> (\<forall>k<6.
          poly_points (prismPolys rid i p p c ! k) = [position c, position c]
          \<and> distance (poly_points (prismPolys rid i p p c ! k) ! 0)
                      (poly_points (prismPolys rid i p p c ! k) ! 1) = 0)
    \<and> (\<forall>ray \<in> set rays. \<forall>ps.
          i + 1 < length (ray_points ray) \<and> p = ray_points ray ! i \<and> p = ray_points ray ! (i + 1)
          \<and> rid = ray_id ray \<and> c \<in> set ps
          \<longrightarrow> set (prismPolys rid i p p c) \<subseteq> set (dispersionPolys rays ps))"
proof -
  let ?fan = "prismPolys rid i p p c"
  have fan: "?fan = map (subRay rid i (0, 0) c) [0..<6]"
    using prismPolys_near[OF near] by (simp only: unitDir_degenerate)
  have len: "length ?fan = 6" by (simp add: fan)
  have each: "\<forall>k<6.
          poly_points (?fan ! k) = [position c, position c]
          \<and> distance (poly_points (?fan ! k) ! 0) (poly_points (?fan ! k) ! 1) = 0"
  proof (intro allI impI)
    fix k :: nat
    assume k: "k < 6"
    have nth: "?fan ! k = subRay rid i (0, 0) c k"
      unfolding fan using k by (rule fan_nth)
    show "poly_points (?fan ! k) = [position c, position c]
          \<and> distance (poly_points (?fan ! k) ! 0) (poly_points (?fan ! k) ! 1) = 0"
      unfolding nth subRay_degenerate by (simp add: distance_self)
  qed
  have emitted: "\<forall>ray \<in> set rays. \<forall>ps.
          i + 1 < length (ray_points ray) \<and> p = ray_points ray ! i \<and> p = ray_points ray ! (i + 1)
          \<and> rid = ray_id ray \<and> c \<in> set ps
          \<longrightarrow> set ?fan \<subseteq> set (dispersionPolys rays ps)"
    using prismPolys_emitted by metis
  show ?thesis
    by (intro conjI unitDir_degenerate len each emitted)
qed

theorem degenerate_segment_fan_witness:
  "length (prismPolys ''ray-1'' 0 (ray_points degenerateRay ! 0) (ray_points degenerateRay ! 0) scenarioPrism) = 6
   \<and> poly_points (prismPolys ''ray-1'' 0 (ray_points degenerateRay ! 0) (ray_points degenerateRay ! 0) scenarioPrism ! 5)
       = [\<lparr>coordX = 300, coordY = 100\<rparr>, \<lparr>coordX = 300, coordY = 100\<rparr>]
   \<and> set (prismPolys ''ray-1'' 0 (ray_points degenerateRay ! 0) (ray_points degenerateRay ! 0) scenarioPrism)
       \<subseteq> set (dispersionPolys [degenerateRay] [scenarioPrism])"
proof -
  let ?p = "ray_points degenerateRay ! 0"
  let ?fan = "prismPolys ''ray-1'' 0 ?p ?p scenarioPrism"
  note fan = degenerate_segment_fan[OF degenerate_near, of "''ray-1''" 0 "[degenerateRay]"]
  note rest = fan[THEN conjunct2, THEN conjunct2]
  have len: "length ?fan = 6" by (rule rest[THEN conjunct1])
  have k: "(5::nat) < 6" by simp
  have pts: "poly_points (?fan ! 5) = [\<lparr>coordX = 300, coordY = 100\<rparr>, \<lparr>coordX = 300, coordY = 100\<rparr>]"
    unfolding rest[THEN conjunct2, THEN conjunct1, rule_format, OF k, THEN conjunct1]
    by (simp add: scenarioPrism_def)
  have r: "degenerateRay \<in> set [degenerateRay]" by simp
  have "0 + 1 < length (ray_points degenerateRay) \<and> ?p = ray_points degenerateRay ! 0
        \<and> ?p = ray_points degenerateRay ! (0 + 1) \<and> ''ray-1'' = ray_id degenerateRay
        \<and> scenarioPrism \<in> set [scenarioPrism]"
    by (simp add: degenerateRay_def)
  then have sub: "set ?fan \<subseteq> set (dispersionPolys [degenerateRay] [scenarioPrism])"
    by (rule rest[THEN conjunct2, THEN conjunct2, THEN bspec, OF r, THEN spec, THEN mp])
  show ?thesis by (intro conjI len pts sub)
qed

lemma dispersionPolys_all_far:
  assumes far: "\<forall>ray \<in> set rays. \<forall>i. i + 1 < length (ray_points ray) \<longrightarrow>
       (\<forall>c \<in> set ps. threshold <
          distancePointToSegment (coordX (position c)) (coordY (position c))
            (coordX (ray_points ray ! i)) (coordY (ray_points ray ! i))
            (coordX (ray_points ray ! (i + 1))) (coordY (ray_points ray ! (i + 1))))"
  shows "dispersionPolys rays ps = []"
proof -
  have "poly \<notin> set (dispersionPolys rays ps)" for poly
  proof
    assume "poly \<in> set (dispersionPolys rays ps)"
    then obtain ray i c where ray: "ray \<in> set rays" and i: "i + 1 < length (ray_points ray)"
      and c: "c \<in> set ps"
      and mem: "poly \<in> set (prismPolys (ray_id ray) i (ray_points ray ! i) (ray_points ray ! (i + 1)) c)"
      unfolding in_dispersionPolys_iff by blast
    from far ray i c have "\<not> distancePointToSegment (coordX (position c)) (coordY (position c))
            (coordX (ray_points ray ! i)) (coordY (ray_points ray ! i))
            (coordX (ray_points ray ! (i + 1))) (coordY (ray_points ray ! (i + 1))) \<le> threshold"
      by (simp add: not_le)
    then have "prismPolys (ray_id ray) i (ray_points ray ! i) (ray_points ray ! (i + 1)) c = []"
      by (rule prismPolys_far)
    with mem show False by simp
  qed
  then show ?thesis by (cases "dispersionPolys rays ps") auto
qed

lemma dispersionPolys_only_near:
  assumes "poly \<in> set (dispersionPolys rays ps)"
  shows "\<exists>ray \<in> set rays. \<exists>i. i + 1 < length (ray_points ray) \<and>
       (\<exists>c \<in> set ps.
          distancePointToSegment (coordX (position c)) (coordY (position c))
            (coordX (ray_points ray ! i)) (coordY (ray_points ray ! i))
            (coordX (ray_points ray ! (i + 1))) (coordY (ray_points ray ! (i + 1))) \<le> threshold
          \<and> poly \<in> set (map (subRay (ray_id ray) i (unitDir (ray_points ray ! i) (ray_points ray ! (i + 1))) c) [0..<6]))"
proof -
  from assms obtain ray i c where ray: "ray \<in> set rays" and i: "i + 1 < length (ray_points ray)"
      and c: "c \<in> set ps"
      and mem: "poly \<in> set (prismPolys (ray_id ray) i (ray_points ray ! i) (ray_points ray ! (i + 1)) c)"
    unfolding in_dispersionPolys_iff by blast
  let ?d = "distancePointToSegment (coordX (position c)) (coordY (position c))
            (coordX (ray_points ray ! i)) (coordY (ray_points ray ! i))
            (coordX (ray_points ray ! (i + 1))) (coordY (ray_points ray ! (i + 1)))"
  have near: "?d \<le> threshold"
  proof (rule ccontr)
    assume "\<not> ?d \<le> threshold"
    then have "prismPolys (ray_id ray) i (ray_points ray ! i) (ray_points ray ! (i + 1)) c = []"
      by (rule prismPolys_far)
    with mem show False by simp
  qed
  from mem have "poly \<in> set (map (subRay (ray_id ray) i (unitDir (ray_points ray ! i) (ray_points ray ! (i + 1))) c) [0..<6])"
    unfolding prismPolys_near[OF near] .
  with ray i c near show ?thesis by blast
qed

text \<open>
  Claim C6. The output of \<open>dispersionPolys\<close> is empty when there is no ray, when there is
  no dispersive component (also with rays present), and when every dispersive component
  is farther than the threshold 24 from every segment of every ray. Conversely every
  polyline of the output is one of the six sub-rays of a segment and a dispersive
  component whose distance is at most the threshold.
\<close>

theorem dispersionPolys_empty_cases:
  "dispersionPolys [] ps = []
   \<and> dispersionPolys rays [] = []
   \<and> (prisms comps = [] \<longrightarrow> dispersionPolys rays (prisms comps) = [])
   \<and> ((\<forall>ray \<in> set rays. \<forall>i. i + 1 < length (ray_points ray) \<longrightarrow>
         (\<forall>c \<in> set ps. threshold <
            distancePointToSegment (coordX (position c)) (coordY (position c))
              (coordX (ray_points ray ! i)) (coordY (ray_points ray ! i))
              (coordX (ray_points ray ! (i + 1))) (coordY (ray_points ray ! (i + 1)))))
       \<longrightarrow> dispersionPolys rays ps = [])
   \<and> (\<forall>poly \<in> set (dispersionPolys rays ps).
         \<exists>ray \<in> set rays. \<exists>i. i + 1 < length (ray_points ray) \<and>
           (\<exists>c \<in> set ps.
              distancePointToSegment (coordX (position c)) (coordY (position c))
                (coordX (ray_points ray ! i)) (coordY (ray_points ray ! i))
                (coordX (ray_points ray ! (i + 1))) (coordY (ray_points ray ! (i + 1))) \<le> threshold
              \<and> poly \<in> set (map (subRay (ray_id ray) i
                                   (unitDir (ray_points ray ! i) (ray_points ray ! (i + 1))) c) [0..<6])))
   \<and> threshold = 24"
proof (intro conjI impI ballI)
  show "dispersionPolys [] ps = []" by (simp add: dispersionPolys_def)
  show "dispersionPolys rays [] = []" by (simp add: dispersionPolys_def)
  show "dispersionPolys rays (prisms comps) = []" if "prisms comps = []"
    using that by (simp add: dispersionPolys_def)
  show "threshold = 24" by (simp add: threshold_def)
qed (erule dispersionPolys_all_far, erule dispersionPolys_only_near)

lemma prisms_none: "prisms [scenarioSource] = []"
  by (simp add: prisms_def scenarioSource_def toLowerCase_def)

theorem dispersionPolys_empty_cases_witness:
  "dispersionPolys [] [scenarioPrism] = []
   \<and> prisms [scenarioSource] = []
   \<and> dispersionPolys [scenarioRay] (prisms [scenarioSource]) = []
   \<and> dispersionPolys [scenarioRay] (prisms [scenarioSource, farPrism]) = []
   \<and> dispersionPolys [scenarioRay] [scenarioPrism] \<noteq> []
   \<and> distancePointToSegment (coordX (position scenarioPrism)) (coordY (position scenarioPrism))
        (coordX (ray_points scenarioRay ! 0)) (coordY (ray_points scenarioRay ! 0))
        (coordX (ray_points scenarioRay ! 1)) (coordY (ray_points scenarioRay ! 1)) \<le> threshold"
proof -
  have a: "dispersionPolys [] [scenarioPrism] = []"
    by (rule dispersionPolys_empty_cases[THEN conjunct1])
  have b: "dispersionPolys [scenarioRay] (prisms [scenarioSource]) = []"
    using prisms_none
    by (rule dispersionPolys_empty_cases[THEN conjunct2, THEN conjunct2, THEN conjunct1, THEN mp])
  have two: "i = 0" if "i + 1 < length (ray_points scenarioRay)" for i
    using that by (simp add: scenarioRay_def)
  have far: "\<forall>ray \<in> set [scenarioRay]. \<forall>i. i + 1 < length (ray_points ray) \<longrightarrow>
         (\<forall>c \<in> set [farPrism]. threshold <
            distancePointToSegment (coordX (position c)) (coordY (position c))
              (coordX (ray_points ray ! i)) (coordY (ray_points ray ! i))
              (coordX (ray_points ray ! (i + 1))) (coordY (ray_points ray ! (i + 1))))"
    using scenario_far two by auto
  have c: "dispersionPolys [scenarioRay] (prisms [scenarioSource, farPrism]) = []"
    unfolding prisms_far using far
    by (rule dispersionPolys_empty_cases[THEN conjunct2, THEN conjunct2, THEN conjunct2, THEN conjunct1, THEN mp])
  let ?fan = "prismPolys (ray_id scenarioRay) 0 (ray_points scenarioRay ! 0) (ray_points scenarioRay ! (0 + 1)) scenarioPrism"
  have "?fan = map (subRay (ray_id scenarioRay) 0 (unitDir (ray_points scenarioRay ! 0) (ray_points scenarioRay ! (0 + 1))) scenarioPrism) [0..<6]"
    using scenario_near by (intro prismPolys_near) simp
  then have "?fan ! 0 \<in> set ?fan" by simp
  moreover have "set ?fan \<subseteq> set (dispersionPolys [scenarioRay] [scenarioPrism])"
    by (rule prismPolys_emitted) (simp_all add: scenarioRay_def)
  ultimately have mem: "?fan ! 0 \<in> set (dispersionPolys [scenarioRay] [scenarioPrism])" by blast
  then have d: "dispersionPolys [scenarioRay] [scenarioPrism] \<noteq> []" by auto
  from dispersionPolys_empty_cases[THEN conjunct2, THEN conjunct2, THEN conjunct2, THEN conjunct2,
         THEN conjunct1, THEN bspec, OF mem]
  obtain i where "i + 1 < length (ray_points scenarioRay)"
     and "distancePointToSegment (coordX (position scenarioPrism)) (coordY (position scenarioPrism))
              (coordX (ray_points scenarioRay ! i)) (coordY (ray_points scenarioRay ! i))
              (coordX (ray_points scenarioRay ! (i + 1))) (coordY (ray_points scenarioRay ! (i + 1))) \<le> threshold"
    by auto
  with two have e: "distancePointToSegment (coordX (position scenarioPrism)) (coordY (position scenarioPrism))
        (coordX (ray_points scenarioRay ! 0)) (coordY (ray_points scenarioRay ! 0))
        (coordX (ray_points scenarioRay ! 1)) (coordY (ray_points scenarioRay ! 1)) \<le> threshold"
    by auto
  show ?thesis by (intro conjI a prisms_none b c d e)
qed

section \<open>Registry updates\<close>

lemma jsRem_small:
  assumes "0 \<le> a" "a < b"
  shows "jsRem a b = a"
proof -
  have b: "0 < b" using assms by linarith
  have "0 \<le> a / b" "a / b < 1" using assms b by simp_all
  then have "\<lfloor>a / b\<rfloor> = 0" by linarith
  then show ?thesis using \<open>0 \<le> a / b\<close> by (simp add: jsRem_def)
qed

lemma jsRem_nonneg:
  assumes a: "0 \<le> a" and b: "0 < b"
  shows "0 \<le> jsRem a b" "jsRem a b < b"
proof -
  have q: "0 \<le> a / b" using a b by simp
  have r: "jsRem a b = a - b * of_int \<lfloor>a / b\<rfloor>" using q by (simp add: jsRem_def)
  have lo: "of_int \<lfloor>a / b\<rfloor> * b \<le> a" using b by (rule floor_divide_lower)
  have hi: "a < (of_int \<lfloor>a / b\<rfloor> + 1) * b" using b by (rule floor_divide_upper)
  show "0 \<le> jsRem a b" unfolding r using lo by (simp add: mult.commute)
  show "jsRem a b < b" unfolding r using hi by (simp add: algebra_simps)
qed

lemma jsRem_lower:
  assumes b: "0 < b"
  shows "- b < jsRem a b"
proof (cases "0 \<le> a / b")
  case True
  then have "0 \<le> a" using b by (simp add: zero_le_divide_iff)
  from jsRem_nonneg(1)[OF this b] b show ?thesis by linarith
next
  case False
  then have r: "jsRem a b = a - b * of_int \<lceil>a / b\<rceil>" by (simp add: jsRem_def)
  have "of_int \<lceil>a / b\<rceil> < a / b + 1" by linarith
  then have "of_int \<lceil>a / b\<rceil> * b < (a / b + 1) * b" using b by (simp only: mult_less_cancel_right_pos)
  also have "\<dots> = a + b" using b by (simp add: algebra_simps)
  finally show ?thesis unfolding r by (simp add: mult.commute)
qed

lemma normalizeRotation_range: "0 \<le> normalizeRotation r" "normalizeRotation r < 360"
proof -
  have "- 360 < jsRem r 360" by (rule jsRem_lower) simp
  then have nn: "0 \<le> jsRem r 360 + 360" by linarith
  show "0 \<le> normalizeRotation r" unfolding normalizeRotation_def using nn by (rule jsRem_nonneg(1)) simp
  show "normalizeRotation r < 360" unfolding normalizeRotation_def using nn by (rule jsRem_nonneg(2)) simp
qed

lemma normalizeRotation_id:
  assumes "0 \<le> r" "r < 360"
  shows "normalizeRotation r = r"
proof -
  have 1: "jsRem r 360 = r" using assms by (rule jsRem_small)
  have q: "1 \<le> (r + 360) / 360" "(r + 360) / 360 < 2" using assms by simp_all
  then have "\<lfloor>(r + 360) / 360\<rfloor> = 1" by linarith
  then have "jsRem (r + 360) 360 = r" using q by (simp add: jsRem_def)
  then show ?thesis by (simp add: normalizeRotation_def 1)
qed

lemma normalizeRotation_fixed_iff: "normalizeRotation r = r \<longleftrightarrow> 0 \<le> r \<and> r < 360"
  using normalizeRotation_range[of r] normalizeRotation_id[of r] by auto

lemma normalizeRotation_360: "normalizeRotation 360 = 0"
  by (simp add: normalizeRotation_def jsRem_def)

lemma spread_rotation_only:
  "spread c (noUpdate\<lparr>u_rotation := Some r\<rparr>) = c\<lparr>rotation := r\<rparr>"
  by (cases c) (simp add: spread_def noUpdate_def)


text \<open>
  Claim C3, as the code has it. \<open>handleUpdateComponent\<close> spreads the update over the
  component and normalizes nothing: after a rotation update to \<open>r\<close> every component with the
  given id stores \<open>r\<close> itself, and the others are unchanged. The stored value equals
  \<open>((r % 360) + 360) % 360\<close>, and lies in \<open>[0,360)\<close>, exactly when \<open>0 \<le> r < 360\<close>.
\<close>

theorem rotation_update_stored:
  "handleUpdateComponent ident (noUpdate\<lparr>u_rotation := Some r\<rparr>) prev =
       map (\<lambda>c. if comp_id c = ident then c\<lparr>rotation := r\<rparr> else c) prev
   \<and> (\<forall>c \<in> set (handleUpdateComponent ident (noUpdate\<lparr>u_rotation := Some r\<rparr>) prev).
         comp_id c = ident \<longrightarrow> rotation c = r)
   \<and> (normalizeRotation r = r \<longleftrightarrow> 0 \<le> r \<and> r < 360)"
proof (intro conjI)
  show eq: "handleUpdateComponent ident (noUpdate\<lparr>u_rotation := Some r\<rparr>) prev =
       map (\<lambda>c. if comp_id c = ident then c\<lparr>rotation := r\<rparr> else c) prev"
    unfolding handleUpdateComponent_def spread_rotation_only ..
  show "\<forall>c \<in> set (handleUpdateComponent ident (noUpdate\<lparr>u_rotation := Some r\<rparr>) prev).
         comp_id c = ident \<longrightarrow> rotation c = r"
  proof (intro ballI impI)
    fix c
    assume "c \<in> set (handleUpdateComponent ident (noUpdate\<lparr>u_rotation := Some r\<rparr>) prev)"
      and cid: "comp_id c = ident"
    then obtain c0 where c: "c = (if comp_id c0 = ident then c0\<lparr>rotation := r\<rparr> else c0)"
      unfolding eq set_map by blast
    show "rotation c = r"
    proof (cases "comp_id c0 = ident")
      case True
      then show ?thesis using c by simp
    next
      case False
      then show ?thesis using c cid by simp
    qed
  qed
  show "normalizeRotation r = r \<longleftrightarrow> 0 \<le> r \<and> r < 360"
    by (rule normalizeRotation_fixed_iff)
qed

theorem rotation_update_stored_witness:
  "map rotation (handleUpdateComponent ''lens-1'' (noUpdate\<lparr>u_rotation := Some 45\<rparr>)
                   [scenarioSource, scenarioPrism]) = [0, 45]
   \<and> rotation (scenarioPrism\<lparr>rotation := 45\<rparr>) = 45
   \<and> normalizeRotation 45 = 45"
proof -
  note t = rotation_update_stored[of "''lens-1''" 45 "[scenarioSource, scenarioPrism]"]
  have a: "map rotation (handleUpdateComponent ''lens-1'' (noUpdate\<lparr>u_rotation := Some 45\<rparr>)
                   [scenarioSource, scenarioPrism]) = [0, 45]"
    unfolding t[THEN conjunct1] by (simp add: scenarioSource_def scenarioPrism_def)
  have mem: "scenarioPrism\<lparr>rotation := 45\<rparr> \<in> set (handleUpdateComponent ''lens-1'' (noUpdate\<lparr>u_rotation := Some 45\<rparr>)
                   [scenarioSource, scenarioPrism])"
    unfolding t[THEN conjunct1] by (simp add: scenarioSource_def scenarioPrism_def)
  have idp: "comp_id (scenarioPrism\<lparr>rotation := 45\<rparr>) = ''lens-1''" by (simp add: scenarioPrism_def)
  have b: "rotation (scenarioPrism\<lparr>rotation := 45\<rparr>) = 45"
    using idp by (rule t[THEN conjunct2, THEN conjunct1, THEN bspec, OF mem, THEN mp])
  have "(0::real) \<le> 45 \<and> (45::real) < 360" by simp
  then have c: "normalizeRotation 45 = 45"
    by (rule t[THEN conjunct2, THEN conjunct2, THEN iffD2])
  show ?thesis by (intro conjI a b c)
qed

text \<open>
  Claim C3 as stated fails: the rotation slider allows 360, the update stores 360, and the
  normalized value would be 0.
\<close>

theorem rotation_update_counterexample:
  "map rotation (handleUpdateComponent ''lens-1'' (noUpdate\<lparr>u_rotation := Some 360\<rparr>)
                   [scenarioSource, scenarioPrism]) = [0, 360]
   \<and> normalizeRotation 360 = 0"
  by (simp add: handleUpdateComponent_def spread_rotation_only scenarioSource_def scenarioPrism_def
        normalizeRotation_360)







section \<open>Simulation runs that overlap\<close>

lemma runResolved_result:
  assumes "call \<in> set (pending rt)"
  shows "simulationResult (app (runResolved call result rt)) = Some result"
    and "set (pending (runResolved call result rt)) = set (pending rt) - {call}"
  using assms by (simp_all add: runResolved_def)

lemma runStart_pending:
  assumes "components (app rt) \<noteq> []"
  shows "pending (runStart call rt) = pending rt @ [call]"
    and "components (app (runStart call rt)) = components (app rt)"
  using assms by (simp_all add: runStart_def)

lemma overlap_order:
  assumes ne: "components (app rt) \<noteq> []" and ab: "a \<noteq> b"
  shows "simulationResult (app (runEvents rt [Run a, Run b, Resolved b rb, Resolved a ra])) = Some ra"
    and "simulationResult (app (runEvents rt [Run a, Run b, Resolved a ra, Resolved b rb])) = Some rb"
proof -
  define r2 where "r2 = runStart b (runStart a rt)"
  have p2: "pending r2 = pending rt @ [a, b]"
    unfolding r2_def using ne by (simp add: runStart_pending)
  have ina: "a \<in> set (pending (runResolved b rb r2))"
    using ab p2 by (simp add: runResolved_result(2))
  have inb: "b \<in> set (pending (runResolved a ra r2))"
    using ab p2 by (simp add: runResolved_result(2))
  show "simulationResult (app (runEvents rt [Run a, Run b, Resolved b rb, Resolved a ra])) = Some ra"
    using runResolved_result(1)[OF ina] by (simp add: runEvents_def r2_def)
  show "simulationResult (app (runEvents rt [Run a, Run b, Resolved a ra, Resolved b rb])) = Some rb"
    using runResolved_result(1)[OF inb] by (simp add: runEvents_def r2_def)
qed

text \<open>
  Claim C9, as the code has it. The handler keeps no record of which call is the latest:
  the response of every call in flight is stored when it arrives. When two calls overlap,
  the stored result is that of the call whose response arrives last, also when that call
  was started first.
\<close>

theorem responses_stored_on_arrival:
  "(call \<in> set (pending rt) \<longrightarrow>
      simulationResult (app (step rt (Resolved call result))) = Some result)
   \<and> (components (app rt) \<noteq> [] \<and> a \<noteq> b \<longrightarrow>
        simulationResult (app (runEvents rt [Run a, Run b, Resolved b rb, Resolved a ra])) = Some ra
      \<and> simulationResult (app (runEvents rt [Run a, Run b, Resolved a ra, Resolved b rb])) = Some rb)"
  using runResolved_result(1)[of call rt result]
    overlap_order(1)[of rt a b rb ra] overlap_order(2)[of rt a b ra rb]
  by simp

theorem responses_stored_on_arrival_witness:
  "simulationResult (app (step \<lparr>app = workingState, pending = [7]\<rparr> (Resolved 7 (JStr ''late'')))) = Some (JStr ''late'')
   \<and> simulationResult (app (runEvents \<lparr>app = workingState, pending = []\<rparr>
        [Run 1, Run 2, Resolved 2 (JStr ''second''), Resolved 1 (JStr ''first'')])) = Some (JStr ''first'')
   \<and> simulationResult (app (runEvents \<lparr>app = workingState, pending = []\<rparr>
        [Run 1, Run 2, Resolved 1 (JStr ''first''), Resolved 2 (JStr ''second'')])) = Some (JStr ''second'')"
proof -
  have p: "(7::nat) \<in> set (pending \<lparr>app = workingState, pending = [7]\<rparr>)" by simp
  have q: "components (app \<lparr>app = workingState, pending = []\<rparr>) \<noteq> [] \<and> (1::nat) \<noteq> 2"
    by (simp add: workingState_def)
  note t1 = responses_stored_on_arrival[THEN conjunct1, THEN mp, OF p]
  note t2 = responses_stored_on_arrival[THEN conjunct2, THEN mp, OF q]
  show ?thesis by (intro conjI t1 t2[THEN conjunct1] t2[THEN conjunct2])
qed

text \<open>
  Claim C9 as stated fails: call 2 is started while call 1 is pending, the response of
  call 2 arrives first, and the late response of call 1 replaces it.
\<close>

theorem last_started_wins_counterexample:
  "simulationResult (app (runEvents \<lparr>app = workingState, pending = []\<rparr>
      [Run 1, Run 2, Resolved 2 (JStr ''second''), Resolved 1 (JStr ''first'')])) = Some (JStr ''first'')
   \<and> JStr ''first'' \<noteq> JStr ''second''"
  by (simp add: runEvents_def runStart_def runResolved_def workingState_def)

section \<open>Import of a setup file\<close>

lemma alert_keeps_state:
  "components (alert msg st) = components st"
  "selectedId (alert msg st) = selectedId st"
  "simulationSettings (alert msg st) = simulationSettings st"
  "simulationResult (alert msg st) = simulationResult st"
  "isSimulating (alert msg st) = isSimulating st"
  "alerts (alert msg st) = alerts st @ [msg]"
  by (simp_all add: alert_def)

lemma import_not_json:
  "handleImportSetup NotJSON st = alert ''Failed to import setup. Invalid file format.'' st"
  "handleImportSetup (JSONText JNull) st = alert ''Failed to import setup. Invalid file format.'' st"
  by (simp_all add: handleImportSetup_def getProp_def)

lemma import_no_array:
  assumes obj: "setupVal \<noteq> JNull" "setupVal \<noteq> JUndefined"
    and na: "\<not> isArray (readProp setupVal ''components'')"
  shows "components (handleImportSetup (JSONText setupVal) st) = components st"
    and "alerts (handleImportSetup (JSONText setupVal) st) = alerts st"
    and "simulationResult (handleImportSetup (JSONText setupVal) st) = None"
    and "selectedId (handleImportSetup (JSONText setupVal) st) = None"
    and "simulationSettings (handleImportSetup (JSONText setupVal) st) =
          (if truthy (readProp setupVal ''simulationSettings'') then readProp setupVal ''simulationSettings''
           else if truthy (readProp setupVal ''settings'') then readProp setupVal ''settings''
           else simulationSettings st)"
  using obj na by (simp_all add: handleImportSetup_def getProp_def Let_def)

text \<open>
  Claim C8, as the code has it. A file that is not JSON, and the JSON text \<open>null\<close>, end
  in the alert "Failed to import setup. Invalid file format." with components, selection,
  settings and result as they were. A file that parses to anything else but has no array
  under \<open>components\<close> raises no error: the components stay, the simulation result and the
  selection are cleared, and the settings are replaced when the file carries a truthy
  \<open>simulationSettings\<close> or \<open>settings\<close>.
\<close>

theorem import_without_components:
  "handleImportSetup NotJSON st = alert ''Failed to import setup. Invalid file format.'' st
   \<and> handleImportSetup (JSONText JNull) st = alert ''Failed to import setup. Invalid file format.'' st
   \<and> components (alert msg st) = components st
   \<and> selectedId (alert msg st) = selectedId st
   \<and> simulationSettings (alert msg st) = simulationSettings st
   \<and> simulationResult (alert msg st) = simulationResult st
   \<and> alerts (alert msg st) = alerts st @ [msg]
   \<and> (setupVal \<noteq> JNull \<and> setupVal \<noteq> JUndefined \<and> \<not> isArray (readProp setupVal ''components'') \<longrightarrow>
        components (handleImportSetup (JSONText setupVal) st) = components st
      \<and> alerts (handleImportSetup (JSONText setupVal) st) = alerts st
      \<and> simulationResult (handleImportSetup (JSONText setupVal) st) = None
      \<and> selectedId (handleImportSetup (JSONText setupVal) st) = None
      \<and> simulationSettings (handleImportSetup (JSONText setupVal) st) =
          (if truthy (readProp setupVal ''simulationSettings'') then readProp setupVal ''simulationSettings''
           else if truthy (readProp setupVal ''settings'') then readProp setupVal ''settings''
           else simulationSettings st))"
  using import_not_json[of st] alert_keeps_state[of msg st] import_no_array[of setupVal st]
  by blast

theorem import_without_components_witness:
  "components (handleImportSetup (JSONText (JObj [(''components'', JStr ''none''), (''settings'', JNum 5)])) workingState)
     = components workingState
   \<and> alerts (handleImportSetup (JSONText (JObj [(''components'', JStr ''none''), (''settings'', JNum 5)])) workingState) = []
   \<and> simulationResult (handleImportSetup (JSONText (JObj [(''components'', JStr ''none''), (''settings'', JNum 5)])) workingState) = None
   \<and> selectedId (handleImportSetup (JSONText (JObj [(''components'', JStr ''none''), (''settings'', JNum 5)])) workingState) = None
   \<and> simulationSettings (handleImportSetup (JSONText (JObj [(''components'', JStr ''none''), (''settings'', JNum 5)])) workingState) = JNum 5"
proof -
  let ?sv = "JObj [(''components'', JStr ''none''), (''settings'', JNum 5)]"
  have h: "?sv \<noteq> JNull \<and> ?sv \<noteq> JUndefined \<and> \<not> isArray (readProp ?sv ''components'')"
    by simp
  note t = import_without_components[of workingState "''x''" ?sv,
      THEN conjunct2, THEN conjunct2, THEN conjunct2, THEN conjunct2, THEN conjunct2, THEN conjunct2,
      THEN conjunct2, THEN mp, OF h]
  have al: "alerts workingState = []" by (simp add: workingState_def)
  have se: "(if truthy (readProp ?sv ''simulationSettings'') then readProp ?sv ''simulationSettings''
           else if truthy (readProp ?sv ''settings'') then readProp ?sv ''settings''
           else simulationSettings workingState) = JNum 5"
    by simp
  show ?thesis
    using t al se by simp
qed

text \<open>
  Claim C8 as stated fails: importing the file \<open>{}\<close> shows no alert and clears the
  selection and the simulation result.
\<close>

theorem import_without_components_counterexample:
  "alerts (handleImportSetup (JSONText (JObj [])) workingState) = alerts workingState
   \<and> selectedId workingState = Some ''source-1''
   \<and> selectedId (handleImportSetup (JSONText (JObj [])) workingState) = None
   \<and> simulationResult workingState \<noteq> None
   \<and> simulationResult (handleImportSetup (JSONText (JObj [])) workingState) = None"
  by (simp add: handleImportSetup_def getProp_def workingState_def)

section \<open>Export followed by import\<close>

lemma jsonValue_numbers:
  "concat (map ((\<lambda>kv. case jsonValue (snd kv) of None \<Rightarrow> [] | Some w \<Rightarrow> [(fst kv, w)])
                \<circ> (\<lambda>kv. (fst kv, JNum (snd kv)))) ps)
     = map (\<lambda>kv. (fst kv, JNum (snd kv))) ps"
  by (induction ps) simp_all

lemma jsonValue_encodeProperties: "jsonValue (encodeProperties ps) = Some (encodeProperties ps)"
  by (simp add: encodeProperties_def jsonValue_numbers)

lemma jsonValue_encodePosition: "jsonValue (encodePosition p) = Some (encodePosition p)"
  by (simp add: encodePosition_def)

lemma jsonValue_encodeSettings: "jsonValue (encodeSettings s) = Some (encodeSettings s)"
  by (simp add: encodeSettings_def)

lemma jsonValue_encodeComponent: "jsonValue (encodeComponent c) = Some (jsonComponent c)"
  by (cases "displayName c")
     (simp_all add: encodeComponent_def jsonComponent_def jsonValue_encodeProperties jsonValue_encodePosition)

lemma readProp_jsonComponent: "readProp (jsonComponent c) k = readProp (encodeComponent c) k"
  by (cases "displayName c") (simp_all add: encodeComponent_def jsonComponent_def)

lemma export_typed:
  "handleExportSetup
     \<lparr>components = map encodeComponent cs, selectedId = sel, simulationSettings = encodeSettings s,
      simulationResult = res, isSimulating = sim, alerts = al\<rparr>
   = JSONText (JObj [(''components'', JArr (map jsonComponent cs)),
                     (''simulationSettings'', encodeSettings s)])"
  by (simp add: handleExportSetup_def downloadJSON_def jsonValue_encodeSettings
        jsonValue_encodeComponent comp_def)

lemma truthy_encodeSettings: "truthy (encodeSettings s)"
  by (simp add: encodeSettings_def)

lemma import_typed:
  "handleImportSetup (JSONText (JObj [(''components'', JArr vs), (''simulationSettings'', encodeSettings s)])) st0
   = st0\<lparr>components := vs, simulationSettings := encodeSettings s,
         simulationResult := None, selectedId := None\<rparr>"
  by (simp add: handleImportSetup_def getProp_def truthy_encodeSettings)

text \<open>
  Claim C7, for setups whose numbers are finite. Exporting a setup of \<open>N\<close> typed
  components and sweep settings and importing the file, into any state, yields \<open>N\<close>
  components; reading any field (id, type, position, rotation, properties, displayName)
  of an imported component gives the value the exported one has; the sweep settings are
  the exported ones; and no alert is shown.
\<close>

theorem export_import_round_trip:
  "length (components (handleImportSetup (handleExportSetup
       \<lparr>components = map encodeComponent cs, selectedId = sel, simulationSettings = encodeSettings s,
        simulationResult = res, isSimulating = sim, alerts = al\<rparr>) st0)) = length cs
   \<and> (\<forall>i<length cs. \<forall>k.
         readProp (components (handleImportSetup (handleExportSetup
            \<lparr>components = map encodeComponent cs, selectedId = sel, simulationSettings = encodeSettings s,
             simulationResult = res, isSimulating = sim, alerts = al\<rparr>) st0) ! i) k
         = readProp (encodeComponent (cs ! i)) k)
   \<and> simulationSettings (handleImportSetup (handleExportSetup
       \<lparr>components = map encodeComponent cs, selectedId = sel, simulationSettings = encodeSettings s,
        simulationResult = res, isSimulating = sim, alerts = al\<rparr>) st0) = encodeSettings s
   \<and> alerts (handleImportSetup (handleExportSetup
       \<lparr>components = map encodeComponent cs, selectedId = sel, simulationSettings = encodeSettings s,
        simulationResult = res, isSimulating = sim, alerts = al\<rparr>) st0) = alerts st0"
  unfolding export_typed import_typed
  by (simp add: readProp_jsonComponent)

theorem export_import_round_trip_witness:
  "length (components (handleImportSetup (handleExportSetup
       \<lparr>components = map encodeComponent [scenarioSource, scenarioPrism], selectedId = None,
        simulationSettings = encodeSettings initialSettings,
        simulationResult = None, isSimulating = False, alerts = []\<rparr>) initialState)) = 2
   \<and> readProp (components (handleImportSetup (handleExportSetup
       \<lparr>components = map encodeComponent [scenarioSource, scenarioPrism], selectedId = None,
        simulationSettings = encodeSettings initialSettings,
        simulationResult = None, isSimulating = False, alerts = []\<rparr>) initialState) ! 1) ''position''
       = JObj [(''x'', JNum 300), (''y'', JNum 100)]
   \<and> readProp (components (handleImportSetup (handleExportSetup
       \<lparr>components = map encodeComponent [scenarioSource, scenarioPrism], selectedId = None,
        simulationSettings = encodeSettings initialSettings,
        simulationResult = None, isSimulating = False, alerts = []\<rparr>) initialState) ! 0) ''displayName''
       = JUndefined"
proof -
  note t = export_import_round_trip[of "[scenarioSource, scenarioPrism]" None initialSettings None False "[]" initialState]
  have len: "length [scenarioSource, scenarioPrism] = 2" by simp
  have i1: "1 < length [scenarioSource, scenarioPrism]" and i0: "0 < length [scenarioSource, scenarioPrism]"
    by simp_all
  note r1 = t[THEN conjunct2, THEN conjunct1, rule_format, OF i1, of "''position''"]
  note r0 = t[THEN conjunct2, THEN conjunct1, rule_format, OF i0, of "''displayName''"]
  have p: "readProp (encodeComponent ([scenarioSource, scenarioPrism] ! 1)) ''position''
             = JObj [(''x'', JNum 300), (''y'', JNum 100)]"
    by (simp add: encodeComponent_def encodePosition_def scenarioPrism_def)
  have d: "readProp (encodeComponent ([scenarioSource, scenarioPrism] ! 0)) ''displayName'' = JUndefined"
    by (simp add: encodeComponent_def scenarioSource_def)
  show ?thesis
    by (intro conjI t[THEN conjunct1, unfolded len] r1[unfolded p] r0[unfolded d])
qed

text \<open>
  Claim C7 as stated, for every setup, fails: JSON has no text for NaN, so a position
  whose x is NaN is exported as \<open>null\<close> and imported as \<open>null\<close>.
\<close>

theorem export_import_nan_counterexample:
  "readProp (readProp nanComponent ''position'') ''x'' = JNaN
   \<and> readProp (readProp (components (handleImportSetup
         (handleExportSetup (initialState\<lparr>components := [nanComponent]\<rparr>)) initialState) ! 0)
         ''position'') ''x'' = JNull"
  by (simp add: handleImportSetup_def handleExportSetup_def downloadJSON_def getProp_def
        initialState_def nanComponent_def jsonValue_encodeProperties jsonValue_encodeSettings
        truthy_encodeSettings)

section \<open>Viewport transform\<close>

text \<open>
  Claim C5. A world point \<open>(x, y)\<close> under the transform \<open>[translateX, translateY, zoom]\<close>
  is drawn at \<open>(x * zoom + translateX, y * zoom + translateY)\<close>; the point \<open>(50, 50)\<close> under
  \<open>[10, -5, 2]\<close> is drawn at \<open>(110, 95)\<close>; and when the store has no transform the group
  carries the identity \<open>translate(0, 0) scale(1)\<close>, which moves no point.
\<close>

theorem toScreen_world_to_screen:
  "toScreen (Some [translateX, translateY, z]) p =
      \<lparr>coordX = coordX p * z + translateX, coordY = coordY p * z + translateY\<rparr>
   \<and> toScreen (Some [10, - 5, 2]) \<lparr>coordX = 50, coordY = 50\<rparr> = \<lparr>coordX = 110, coordY = 95\<rparr>
   \<and> groupTransform None = [Translate 0 0, Scale 1]
   \<and> toScreen None p = p"
  by (simp add: toScreen_def groupTransform_def tx_def ty_def zoom_def entryOr_def)

end
